theory Spec2Isabelle
  imports Main "HOL-Library.Word"
begin

section \<open>Data model (src/main.go, lines 355-386 and 540-545)\<close>

text \<open>
  \<open>src/main.go\<close> holds two listings of the program: lines 1-336, and lines 337-877,
  which adds the delete handlers, the backup protocol of \<open>saveMetadata\<close> and the
  locked reads. The second listing is the program modelled here; of the first, its
  \<open>updateMetadata\<close> and the \<open>saveMetadata\<close> it calls are modelled as well, under
  names ending in \<open>first_listing\<close>.

  The three structs of the registry are records with the fields of the Go source;
  a Go slice is a list (a nil slice and an empty slice are both the empty list).
  \<open>FileSize\<close> is an \<open>int64\<close>.
\<close>

record BuildInfo =
  Version :: string
  Channel :: string
  ReleaseNotes :: string
  FileName :: string
  FileSize :: "64 word"
  UploadTime :: string
  DownloadURL :: string

record AppEntry =
  AppName :: string
  PackageName :: string
  IconPath :: string
  Builds :: "BuildInfo list"

record Project =
  ProjectName :: string
  Apps :: "AppEntry list"

text \<open>
  \<open>AppInfo\<close> (lines 540-545) has the field names of \<open>AppEntry\<close> and \<open>BuildInfo\<close>;
  they carry the prefix \<open>info\<close> here.
\<close>

record AppInfo =
  infoAppName :: string
  infoPackageName :: string
  infoVersion :: string
  infoIconPath :: string

definition deletePassword :: string where
  "deletePassword = ''9527''"

definition metadataFilePath :: string where
  "metadataFilePath = ''metadata.json''"

section \<open>Errors, the file system and the mutex\<close>

text \<open>
  A Go \<open>error\<close> is a value of type \<open>error\<close>; a function returning \<open>error\<close> returns
  an \<open>error option\<close> (\<open>None\<close> is \<open>nil\<close>). \<open>Errorf m e\<close> is
  \<open>fmt.Errorf("<m>: %w", e)\<close>; the two messages used by \<open>saveMetadata\<close> are the
  constructors of \<open>wrapmsg\<close> (line 411: creating the metadata backup failed,
  line 426: writing the metadata file failed).
\<close>

datatype wrapmsg = BackupFailed | WriteFailed

datatype error =
    ErrNotExist
  | ErrOS string
  | ErrJSON string
  | Errorf wrapmsg error

text \<open>
  Every call on the operating system and on the mutex is recorded, in order, in the
  \<open>trace\<close> of the world. The files are a map from paths to contents.
\<close>

datatype event =
    Lock
  | Unlock
  | Stat string
  | Rename string string
  | WriteFile string string
  | ReadFile string
  | Remove string

record world =
  allProjects :: "Project list"
  files :: "string \<rightharpoonup> string"
  trace :: "event list"

text \<open>
  What lies outside the program is a parameter: the JSON encoder and decoder of the
  standard library, and the failures of the operating system. \<open>fault E k\<close> says
  whether the call made when the trace has length \<open>k\<close> fails for a reason of the
  system's own (permissions, a full disk, ...). \<open>Torn e c\<close> is the failure of a
  write that has already replaced the file's contents by \<open>c\<close>; on any other call it is
  the failure \<open>e\<close>.

  \<open>unmarshal E data old\<close> is \<open>json.Unmarshal(data, &allProjects)\<close> where
  \<open>allProjects\<close> holds \<open>old\<close>: the value left in the variable and the error.
\<close>

datatype fault = Fails error | Torn error string

fun fault_error :: "fault \<Rightarrow> error" where
  "fault_error (Fails e) = e"
| "fault_error (Torn e c) = e"

record env =
  marshal :: "Project list \<Rightarrow> error + string"
  unmarshal :: "string \<Rightarrow> Project list \<Rightarrow> Project list \<times> error option"
  fault :: "nat \<Rightarrow> fault option"

definition record_event :: "event \<Rightarrow> world \<Rightarrow> world" where
  "record_event ev w = w\<lparr>trace := trace w @ [ev]\<rparr>"

definition mutex_Lock :: "world \<Rightarrow> world" where
  "mutex_Lock w = record_event Lock w"

definition mutex_Unlock :: "world \<Rightarrow> world" where
  "mutex_Unlock w = record_event Unlock w"

definition os_Stat :: "env \<Rightarrow> string \<Rightarrow> world \<Rightarrow> error option \<times> world" where
  "os_Stat E path w =
    (case fault E (length (trace w)) of
       Some f \<Rightarrow> (Some (fault_error f), record_event (Stat path) w)
     | None \<Rightarrow>
        (case files w path of
           None \<Rightarrow> (Some ErrNotExist, record_event (Stat path) w)
         | Some c \<Rightarrow> (None, record_event (Stat path) w)))"

definition os_Rename :: "env \<Rightarrow> string \<Rightarrow> string \<Rightarrow> world \<Rightarrow> error option \<times> world" where
  "os_Rename E oldpath newpath w =
    (case fault E (length (trace w)) of
       Some f \<Rightarrow> (Some (fault_error f), record_event (Rename oldpath newpath) w)
     | None \<Rightarrow>
        (case files w oldpath of
           None \<Rightarrow> (Some ErrNotExist, record_event (Rename oldpath newpath) w)
         | Some c \<Rightarrow>
            (None, record_event (Rename oldpath newpath)
                     (w\<lparr>files := ((files w)(oldpath := None))(newpath \<mapsto> c)\<rparr>))))"

definition os_WriteFile :: "env \<Rightarrow> string \<Rightarrow> string \<Rightarrow> world \<Rightarrow> error option \<times> world" where
  "os_WriteFile E path data w =
    (case fault E (length (trace w)) of
       Some (Fails e) \<Rightarrow> (Some e, record_event (WriteFile path data) w)
     | Some (Torn e c) \<Rightarrow>
        (Some e, record_event (WriteFile path data) (w\<lparr>files := (files w)(path \<mapsto> c)\<rparr>))
     | None \<Rightarrow>
        (None, record_event (WriteFile path data) (w\<lparr>files := (files w)(path \<mapsto> data)\<rparr>)))"

definition os_ReadFile :: "env \<Rightarrow> string \<Rightarrow> world \<Rightarrow> (error + string) \<times> world" where
  "os_ReadFile E path w =
    (case fault E (length (trace w)) of
       Some f \<Rightarrow> (Inl (fault_error f), record_event (ReadFile path) w)
     | None \<Rightarrow>
        (case files w path of
           None \<Rightarrow> (Inl ErrNotExist, record_event (ReadFile path) w)
         | Some c \<Rightarrow> (Inr c, record_event (ReadFile path) w)))"

definition os_Remove :: "env \<Rightarrow> string \<Rightarrow> world \<Rightarrow> error option \<times> world" where
  "os_Remove E path w =
    (case fault E (length (trace w)) of
       Some f \<Rightarrow> (Some (fault_error f), record_event (Remove path) w)
     | None \<Rightarrow>
        (case files w path of
           None \<Rightarrow> (Some ErrNotExist, record_event (Remove path) w)
         | Some c \<Rightarrow> (None, record_event (Remove path) (w\<lparr>files := (files w)(path := None)\<rparr>))))"

text \<open>\<open>os.IsNotExist\<close> (line 395).\<close>

fun os_IsNotExist :: "error \<Rightarrow> bool" where
  "os_IsNotExist ErrNotExist = True"
| "os_IsNotExist e = False"

section \<open>The persistence codec (lines 388-432)\<close>

definition loadMetadata :: "env \<Rightarrow> world \<Rightarrow> error option \<times> world" where
  "loadMetadata E w0 =
    (let w1 = mutex_Lock w0 in
     case os_ReadFile E metadataFilePath w1 of
       (Inl err, w2) \<Rightarrow>
          if os_IsNotExist err then (None, mutex_Unlock (w2\<lparr>allProjects := []\<rparr>))
          else (Some err, mutex_Unlock w2)
     | (Inr data, w2) \<Rightarrow>
          (case unmarshal E data (allProjects w2) of
             (ps, r) \<Rightarrow> (r, mutex_Unlock (w2\<lparr>allProjects := ps\<rparr>))))"

definition backupPath :: string where
  "backupPath = metadataFilePath @ ''.bak''"

text \<open>
  \<open>saveMetadata\<close> takes no lock (line 405). The results of the two restoring renames
  and of the final remove are dropped, as in the source.
\<close>

definition saveMetadata :: "env \<Rightarrow> world \<Rightarrow> error option \<times> world" where
  "saveMetadata E w0 =
    (case os_Stat E metadataFilePath w0 of (st, w1) \<Rightarrow>
     (case (case st of
              None \<Rightarrow> os_Rename E metadataFilePath backupPath w1
            | Some e \<Rightarrow> (None, w1)) of
        (Some err, w2) \<Rightarrow> (Some (Errorf BackupFailed err), w2)
      | (None, w2) \<Rightarrow>
         (case marshal E (allProjects w2) of
            Inl err \<Rightarrow> (Some err, snd (os_Rename E backupPath metadataFilePath w2))
          | Inr data \<Rightarrow>
             (case os_WriteFile E metadataFilePath data w2 of
                (Some err, w3) \<Rightarrow>
                  (Some (Errorf WriteFailed err),
                   snd (os_Rename E backupPath metadataFilePath w3))
              | (None, w3) \<Rightarrow> (None, snd (os_Remove E backupPath w3))))))"

section \<open>The registry store\<close>

text \<open>
  A \<open>for i := range xs\<close> loop that stops at the first element with a property and
  keeps a pointer to it gives the index of that element.
\<close>

fun findIndex :: "('a \<Rightarrow> bool) \<Rightarrow> 'a list \<Rightarrow> nat option" where
  "findIndex P [] = None"
| "findIndex P (x # xs) = (if P x then Some 0 else map_option Suc (findIndex P xs))"

subsection \<open>updateMetadata (lines 807-850)\<close>

text \<open>The mutation of \<open>allProjects\<close>, lines 811-847.\<close>

definition upsert :: "string \<Rightarrow> AppInfo \<Rightarrow> BuildInfo \<Rightarrow> Project list \<Rightarrow> Project list" where
  "upsert projectName appInfo newBuild ps0 =
    (case (case findIndex (\<lambda>p. ProjectName p = projectName) ps0 of
             Some i \<Rightarrow> (ps0, i)
           | None \<Rightarrow> (ps0 @ [\<lparr>ProjectName = projectName, Apps = []\<rparr>], length ps0)) of
       (ps1, i) \<Rightarrow>
     (case (case findIndex (\<lambda>a. PackageName a = infoPackageName appInfo) (Apps (ps1 ! i)) of
              None \<Rightarrow>
                (Apps (ps1 ! i) @
                   [\<lparr>AppName = infoAppName appInfo,
                     PackageName = infoPackageName appInfo,
                     IconPath = infoIconPath appInfo,
                     Builds = []\<rparr>],
                 length (Apps (ps1 ! i)))
            | Some j \<Rightarrow>
                ((Apps (ps1 ! i))[j := (Apps (ps1 ! i) ! j)
                    \<lparr>AppName := infoAppName appInfo,
                     IconPath := (if infoIconPath appInfo \<noteq> []
                                  then infoIconPath appInfo
                                  else IconPath (Apps (ps1 ! i) ! j))\<rparr>],
                 j)) of
        (apps1, j) \<Rightarrow>
          ps1[i := (ps1 ! i)\<lparr>Apps := apps1[j := (apps1 ! j)\<lparr>Builds := newBuild # Builds (apps1 ! j)\<rparr>]\<rparr>]))"

definition updateMetadata ::
  "env \<Rightarrow> string \<Rightarrow> AppInfo \<Rightarrow> BuildInfo \<Rightarrow> world \<Rightarrow> error option \<times> world" where
  "updateMetadata E projectName appInfo newBuild w0 =
    (let w1 = mutex_Lock w0 in
     case saveMetadata E (w1\<lparr>allProjects := upsert projectName appInfo newBuild (allProjects w1)\<rparr>) of
       (err, w2) \<Rightarrow> (err, mutex_Unlock w2))"

text \<open>
  The same mutation in the first listing (lines 272-306). It differs from lines 811-847
  in line 303 only, which assigns the incoming icon path whether it is empty or not.
\<close>

definition upsert_first_listing ::
  "string \<Rightarrow> AppInfo \<Rightarrow> BuildInfo \<Rightarrow> Project list \<Rightarrow> Project list" where
  "upsert_first_listing projectName appInfo newBuild ps0 =
    (case (case findIndex (\<lambda>p. ProjectName p = projectName) ps0 of
             Some i \<Rightarrow> (ps0, i)
           | None \<Rightarrow> (ps0 @ [\<lparr>ProjectName = projectName, Apps = []\<rparr>], length ps0)) of
       (ps1, i) \<Rightarrow>
     (case (case findIndex (\<lambda>a. PackageName a = infoPackageName appInfo) (Apps (ps1 ! i)) of
              None \<Rightarrow>
                (Apps (ps1 ! i) @
                   [\<lparr>AppName = infoAppName appInfo,
                     PackageName = infoPackageName appInfo,
                     IconPath = infoIconPath appInfo,
                     Builds = []\<rparr>],
                 length (Apps (ps1 ! i)))
            | Some j \<Rightarrow>
                ((Apps (ps1 ! i))[j := (Apps (ps1 ! i) ! j)
                    \<lparr>AppName := infoAppName appInfo, IconPath := infoIconPath appInfo\<rparr>],
                 j)) of
        (apps1, j) \<Rightarrow>
          ps1[i := (ps1 ! i)\<lparr>Apps := apps1[j := (apps1 ! j)\<lparr>Builds := newBuild # Builds (apps1 ! j)\<rparr>]\<rparr>]))"

text \<open>
  \<open>saveMetadata\<close> of the first listing (lines 69-75) writes the encoded registry
  over the file with no backup; its \<open>updateMetadata\<close> (lines 268-309) locks, mutates
  and saves like the second.
\<close>

definition saveMetadata_first_listing :: "env \<Rightarrow> world \<Rightarrow> error option \<times> world" where
  "saveMetadata_first_listing E w =
    (case marshal E (allProjects w) of
       Inl err \<Rightarrow> (Some err, w)
     | Inr data \<Rightarrow> os_WriteFile E metadataFilePath data w)"

definition updateMetadata_first_listing ::
  "env \<Rightarrow> string \<Rightarrow> AppInfo \<Rightarrow> BuildInfo \<Rightarrow> world \<Rightarrow> error option \<times> world" where
  "updateMetadata_first_listing E projectName appInfo newBuild w0 =
    (let w1 = mutex_Lock w0 in
     case saveMetadata_first_listing E
            (w1\<lparr>allProjects := upsert_first_listing projectName appInfo newBuild (allProjects w1)\<rparr>) of
       (err, w2) \<Rightarrow> (err, mutex_Unlock w2))"

subsection \<open>The delete handlers (lines 663-803)\<close>

text \<open>
  A handler answers with a status code and a JSON body; the bodies used by the two
  delete handlers are the constructors of \<open>message\<close>, in the order of the source:
  line 665 and 738 (wrong delete password), 704 (build not found), 769 (app not found),
  722 and 785 (updating the metadata failed), 733 (build deleted), 802 (app deleted).
\<close>

datatype message =
    DeletePasswordWrong
  | BuildNotFound
  | AppNotFound
  | MetadataUpdateFailed
  | BuildDeleted
  | AppDeleted

record response =
  status :: nat
  body :: message

text \<open>
  \<open>filepath.Join\<close> on path elements that are plain names (no separator, no dot
  segment, not empty): the elements joined by a slash.
\<close>

fun filepath_Join :: "string list \<Rightarrow> string" where
  "filepath_Join [] = []"
| "filepath_Join [x] = x"
| "filepath_Join (x # y # ys) = x @ ''/'' @ filepath_Join (y # ys)"

text \<open>
  The nested loops of lines 680-701 stop at the first project, in registry order, that
  holds an app of the package, and at the first such app in it.
\<close>

fun findApp :: "string \<Rightarrow> Project list \<Rightarrow> (nat \<times> nat) option" where
  "findApp packageName [] = None"
| "findApp packageName (p # ps) =
    (case findIndex (\<lambda>a. PackageName a = packageName) (Apps p) of
       Some j \<Rightarrow> Some (0, j)
     | None \<Rightarrow> map_option (\<lambda>(i, j). (Suc i, j)) (findApp packageName ps))"

definition handleDeleteBuild ::
  "env \<Rightarrow> string \<Rightarrow> string \<Rightarrow> string \<Rightarrow> world \<Rightarrow> response \<times> world" where
  "handleDeleteBuild E password packageName fileName w0 =
    (if password \<noteq> deletePassword
     then (\<lparr>status = 401, body = DeletePasswordWrong\<rparr>, w0)
     else
       let w1 = mutex_Lock w0; ps0 = allProjects w1 in
       case findApp packageName ps0 of
         None \<Rightarrow> (\<lparr>status = 404, body = BuildNotFound\<rparr>, mutex_Unlock w1)
       | Some (i, j) \<Rightarrow>
          let appEntry = Apps (ps0 ! i) ! j;
              newBuilds = filter (\<lambda>b. FileName b \<noteq> fileName) (Builds appEntry);
              ps1 = ps0[i := (ps0 ! i)\<lparr>Apps := (Apps (ps0 ! i))[j := appEntry\<lparr>Builds := newBuilds\<rparr>]\<rparr>]
          in
          if \<not> list_ex (\<lambda>b. FileName b = fileName) (Builds appEntry)
          then (\<lparr>status = 404, body = BuildNotFound\<rparr>, mutex_Unlock (w1\<lparr>allProjects := ps1\<rparr>))
          else
            let ps2 = (if newBuilds = []
                       then ps1[i := (ps1 ! i)\<lparr>Apps := filter (\<lambda>a. PackageName a \<noteq> packageName)
                                                           (Apps (ps1 ! i))\<rparr>]
                       else ps1)
            in
            case saveMetadata E (w1\<lparr>allProjects := ps2\<rparr>) of
              (Some err, w2) \<Rightarrow> (\<lparr>status = 500, body = MetadataUpdateFailed\<rparr>, mutex_Unlock w2)
            | (None, w2) \<Rightarrow>
                (\<lparr>status = 200, body = BuildDeleted\<rparr>,
                 mutex_Unlock (snd (os_Remove E (filepath_Join [''uploads'', fileName]) w2))))"

text \<open>
  In \<open>handleDeleteApp\<close> the loop of lines 751-766 rebuilds the app list of each
  project without the apps of the package and stores it in the first project where an
  app was dropped; \<open>buildsToDelete\<close> is the build list of the last app dropped there.
\<close>

definition handleDeleteApp ::
  "env \<Rightarrow> string \<Rightarrow> string \<Rightarrow> world \<Rightarrow> response \<times> world" where
  "handleDeleteApp E password packageName w0 =
    (if password \<noteq> deletePassword
     then (\<lparr>status = 401, body = DeletePasswordWrong\<rparr>, w0)
     else
       let w1 = mutex_Lock w0; ps0 = allProjects w1 in
       case findIndex (\<lambda>p. list_ex (\<lambda>a. PackageName a = packageName) (Apps p)) ps0 of
         None \<Rightarrow> (\<lparr>status = 404, body = AppNotFound\<rparr>, mutex_Unlock w1)
       | Some i \<Rightarrow>
          let buildsToDelete =
                Builds (last (filter (\<lambda>a. PackageName a = packageName) (Apps (ps0 ! i))));
              ps1 = ps0[i := (ps0 ! i)\<lparr>Apps := filter (\<lambda>a. PackageName a \<noteq> packageName)
                                                  (Apps (ps0 ! i))\<rparr>];
              ps2 = (if Apps (ps1 ! i) = []
                     then filter (\<lambda>p. ProjectName p \<noteq> ProjectName (ps1 ! i)) ps1
                     else ps1)
          in
          case saveMetadata E (w1\<lparr>allProjects := ps2\<rparr>) of
            (Some err, w2) \<Rightarrow> (\<lparr>status = 500, body = MetadataUpdateFailed\<rparr>, mutex_Unlock w2)
          | (None, w2) \<Rightarrow>
              (\<lparr>status = 200, body = AppDeleted\<rparr>,
               mutex_Unlock
                 (snd (os_Remove E (filepath_Join [''static'', ''icons'', packageName @ ''.png''])
                    (fold (\<lambda>b w. snd (os_Remove E (filepath_Join [''uploads'', FileName b]) w))
                       buildsToDelete w2)))))"

section \<open>Notions used to state the properties\<close>

text \<open>
  The app entry an upload is aimed at: the first app of the package in the first
  project of the name.
\<close>

definition targetApp :: "string \<Rightarrow> string \<Rightarrow> Project list \<Rightarrow> AppEntry option" where
  "targetApp projectName packageName ps =
    (case find (\<lambda>p. ProjectName p = projectName) ps of
       None \<Rightarrow> None
     | Some p \<Rightarrow> find (\<lambda>a. PackageName a = packageName) (Apps p))"

text \<open>A sequence of uploads, each given by the three arguments of \<open>updateMetadata\<close>.\<close>

fun updateAll :: "env \<Rightarrow> (string \<times> AppInfo \<times> BuildInfo) list \<Rightarrow> world \<Rightarrow> world" where
  "updateAll E [] w = w"
| "updateAll E ((projectName, appInfo, newBuild) # cs) w =
     updateAll E cs (snd (updateMetadata E projectName appInfo newBuild w))"

definition uniqueProjectNames :: "Project list \<Rightarrow> bool" where
  "uniqueProjectNames ps = distinct (map ProjectName ps)"

definition uniquePackagesInProject :: "Project list \<Rightarrow> bool" where
  "uniquePackagesInProject ps = list_all (\<lambda>p. distinct (map PackageName (Apps p))) ps"

definition uniquePackagesInRegistry :: "Project list \<Rightarrow> bool" where
  "uniquePackagesInRegistry ps = distinct (concat (map (\<lambda>p. map PackageName (Apps p)) ps))"

subsection \<open>Concrete values for the examples\<close>

definition build :: "string \<Rightarrow> BuildInfo" where
  "build f = \<lparr>Version = ''1.0'', Channel = ''beta'', ReleaseNotes = [], FileName = f,
              FileSize = 7, UploadTime = [], DownloadURL = ''/downloads/'' @ f\<rparr>"

definition app :: "string \<Rightarrow> string \<Rightarrow> string list \<Rightarrow> AppEntry" where
  "app pkg icon fs = \<lparr>AppName = ''App'', PackageName = pkg, IconPath = icon, Builds = map build fs\<rparr>"

definition info :: "string \<Rightarrow> string \<Rightarrow> AppInfo" where
  "info pkg icon = \<lparr>infoAppName = ''New'', infoPackageName = pkg, infoVersion = ''1.0'',
                    infoIconPath = icon\<rparr>"

text \<open>
  Three environments: one where nothing fails, one whose encoder fails, and one where
  the call made at trace length \<open>k\<close> fails.
\<close>

definition goodEnv :: env where
  "goodEnv = \<lparr>marshal = (\<lambda>ps. Inr (concat (map ProjectName ps))),
              unmarshal = (\<lambda>d old. ([\<lparr>ProjectName = d, Apps = []\<rparr>], None)),
              fault = (\<lambda>k. None)\<rparr>"

definition badCodecEnv :: env where
  "badCodecEnv = \<lparr>marshal = (\<lambda>ps. Inl (ErrJSON ''m'')),
                  unmarshal = (\<lambda>d old. (old, Some (ErrJSON ''u''))),
                  fault = (\<lambda>k. None)\<rparr>"

definition faultEnv :: "nat \<Rightarrow> env" where
  "faultEnv k = \<lparr>marshal = (\<lambda>ps. Inr (concat (map ProjectName ps))),
                 unmarshal = (\<lambda>d old. ([\<lparr>ProjectName = d, Apps = []\<rparr>], None)),
                 fault = (\<lambda>n. if n = k then Some (Torn (ErrOS ''io'') ''x'') else None)\<rparr>"

definition world0 :: "Project list \<Rightarrow> world" where
  "world0 ps = \<lparr>allProjects = ps, files = Map.empty, trace = []\<rparr>"

definition world1 :: "Project list \<Rightarrow> world" where
  "world1 ps = \<lparr>allProjects = ps, files = [metadataFilePath \<mapsto> ''old''], trace = []\<rparr>"

section \<open>Auxiliary facts\<close>


lemma findIndex_None: "findIndex P xs = None \<longleftrightarrow> \<not> list_ex P xs"
  by (induction xs) auto

lemma findIndex_Some:
  "findIndex P xs = Some i \<Longrightarrow> i < length xs \<and> P (xs ! i) \<and> find P xs = Some (xs ! i)"
  by (induction xs arbitrary: i) (auto split: if_splits)

lemma find_None_findIndex: "findIndex P xs = None \<Longrightarrow> find P xs = None"
  by (induction xs) auto

lemma find_update_found:
  "findIndex P xs = Some i \<Longrightarrow> P y \<Longrightarrow> find P (xs[i := y]) = Some y"
  by (induction xs arbitrary: i) (auto split: if_splits)

lemma find_append_new:
  "findIndex P xs = None \<Longrightarrow> P y \<Longrightarrow> find P (xs @ [y]) = Some y"
  by (induction xs) (auto split: if_splits)

lemma allProjects_record_event [simp]: "allProjects (record_event ev w) = allProjects w"
  by (simp add: record_event_def)

lemma allProjects_os_Stat [simp]: "allProjects (snd (os_Stat E p w)) = allProjects w"
  by (simp add: os_Stat_def split: option.splits)

lemma allProjects_os_Rename [simp]: "allProjects (snd (os_Rename E p q w)) = allProjects w"
  by (simp add: os_Rename_def split: option.splits)

lemma allProjects_os_WriteFile [simp]: "allProjects (snd (os_WriteFile E p d w)) = allProjects w"
  by (simp add: os_WriteFile_def split: option.splits fault.splits)

lemma allProjects_os_Remove [simp]: "allProjects (snd (os_Remove E p w)) = allProjects w"
  by (simp add: os_Remove_def split: option.splits)

lemma allProjects_saveMetadata: "allProjects (snd (saveMetadata E w)) = allProjects w"
proof -
  obtain st w1 where s: "os_Stat E metadataFilePath w = (st, w1)" by force
  have w1: "allProjects w1 = allProjects w"
    using allProjects_os_Stat [of E metadataFilePath w] s by simp
  obtain r w2 where b: "(case st of None \<Rightarrow> os_Rename E metadataFilePath backupPath w1
            | Some e \<Rightarrow> (None, w1)) = (r, w2)" by force
  have w2: "allProjects w2 = allProjects w"
    using b w1 allProjects_os_Rename [of E metadataFilePath backupPath w1]
    by (cases st) auto
  show ?thesis
  proof (cases r)
    case (Some err)
    then show ?thesis using s b w2 by (simp add: saveMetadata_def)
  next
    case None
    show ?thesis
    proof (cases "marshal E (allProjects w2)")
      case (Inl err)
      then show ?thesis using s b None w2 by (simp add: saveMetadata_def)
    next
      case (Inr data)
      obtain r3 w3 where wr: "os_WriteFile E metadataFilePath data w2 = (r3, w3)" by force
      have w3: "allProjects w3 = allProjects w"
        using allProjects_os_WriteFile [of E metadataFilePath data w2] wr w2 by simp
      show ?thesis using s b None Inr wr w3
        by (cases r3) (simp_all add: saveMetadata_def)
    qed
  qed
qed

lemma allProjects_updateMetadata:
  "allProjects (snd (updateMetadata E pn ai b w)) = upsert pn ai b (allProjects w)"
proof -
  let ?w = "(mutex_Lock w)\<lparr>allProjects := upsert pn ai b (allProjects (mutex_Lock w))\<rparr>"
  obtain r w2 where s: "saveMetadata E ?w = (r, w2)" by force
  have "allProjects w2 = allProjects ?w"
    using allProjects_saveMetadata [of E ?w] s by simp
  then show ?thesis using s
    by (simp add: updateMetadata_def Let_def mutex_Lock_def mutex_Unlock_def)
qed

lemma targetApp_upsert:
  "targetApp pn (infoPackageName ai) (upsert pn ai b ps) =
     Some (case targetApp pn (infoPackageName ai) ps of
             None \<Rightarrow> \<lparr>AppName = infoAppName ai, PackageName = infoPackageName ai,
                      IconPath = infoIconPath ai, Builds = [b]\<rparr>
           | Some a \<Rightarrow> a\<lparr>AppName := infoAppName ai,
                         IconPath := (if infoIconPath ai \<noteq> [] then infoIconPath ai else IconPath a),
                         Builds := b # Builds a\<rparr>)"
proof (cases "findIndex (\<lambda>p. ProjectName p = pn) ps")
  case None
  then show ?thesis
    by (simp add: targetApp_def upsert_def find_None_findIndex find_append_new)
next
  case (Some i)
  note fi = findIndex_Some [OF Some]
  show ?thesis
  proof (cases "findIndex (\<lambda>a. PackageName a = infoPackageName ai) (Apps (ps ! i))")
    case None
    then show ?thesis using Some fi
      by (simp add: targetApp_def upsert_def find_None_findIndex find_append_new find_update_found)
  next
    case (Some j)
    note fj = findIndex_Some [OF Some]
    show ?thesis using \<open>findIndex (\<lambda>p. ProjectName p = pn) ps = Some i\<close> Some fi fj
      by (simp add: targetApp_def upsert_def find_update_found)
  qed
qed


lemmas os_defs = record_event_def mutex_Lock_def mutex_Unlock_def os_Stat_def os_Rename_def
  os_WriteFile_def os_ReadFile_def os_Remove_def metadataFilePath_def backupPath_def

lemmas example_defs = build_def app_def info_def goodEnv_def badCodecEnv_def faultEnv_def
  world0_def world1_def

subsection \<open>Facts about the upsert\<close>

lemma upsert_new_project:
  assumes "findIndex (\<lambda>p. ProjectName p = pn) ps = None"
  shows "upsert pn ai b ps =
     ps @ [\<lparr>ProjectName = pn,
            Apps = [\<lparr>AppName = infoAppName ai, PackageName = infoPackageName ai,
                     IconPath = infoIconPath ai, Builds = [b]\<rparr>]\<rparr>]"
  using assms by (simp add: upsert_def)

lemma upsert_new_app:
  assumes "findIndex (\<lambda>p. ProjectName p = pn) ps = Some i"
      and "findIndex (\<lambda>a. PackageName a = infoPackageName ai) (Apps (ps ! i)) = None"
  shows "upsert pn ai b ps =
     ps[i := (ps ! i)\<lparr>Apps := Apps (ps ! i) @
            [\<lparr>AppName = infoAppName ai, PackageName = infoPackageName ai,
              IconPath = infoIconPath ai, Builds = [b]\<rparr>]\<rparr>]"
  using assms by (simp add: upsert_def)

lemma upsert_old_app:
  assumes "findIndex (\<lambda>p. ProjectName p = pn) ps = Some i"
      and "findIndex (\<lambda>a. PackageName a = infoPackageName ai) (Apps (ps ! i)) = Some j"
  shows "upsert pn ai b ps =
     ps[i := (ps ! i)\<lparr>Apps := (Apps (ps ! i))[j := (Apps (ps ! i) ! j)
            \<lparr>AppName := infoAppName ai,
             IconPath := (if infoIconPath ai \<noteq> [] then infoIconPath ai
                          else IconPath (Apps (ps ! i) ! j)),
             Builds := b # Builds (Apps (ps ! i) ! j)\<rparr>]\<rparr>]"
  using assms findIndex_Some [OF assms(2)] by (simp add: upsert_def)

lemma map_update_same:
  assumes "i < length xs" and "f y = f (xs ! i)"
  shows "map f (xs[i := y]) = map f xs"
  using assms by (simp add: map_update list_update_same_conv)

lemma upsert_project_names:
  "map ProjectName (upsert pn ai b ps) =
     (if list_ex (\<lambda>p. ProjectName p = pn) ps then map ProjectName ps
      else map ProjectName ps @ [pn])"
proof (cases "findIndex (\<lambda>p. ProjectName p = pn) ps")
  case None
  then show ?thesis
    using findIndex_None [of "\<lambda>p. ProjectName p = pn" ps] by (simp add: upsert_new_project)
next
  case (Some i)
  have ex: "list_ex (\<lambda>p. ProjectName p = pn) ps"
    using Some findIndex_None [of "\<lambda>p. ProjectName p = pn" ps] by simp
  have i: "i < length ps" using findIndex_Some [OF Some] by simp
  show ?thesis
  proof (cases "findIndex (\<lambda>a. PackageName a = infoPackageName ai) (Apps (ps ! i))")
    case None
    show ?thesis using ex i by (simp add: upsert_new_app [OF Some None] map_update_same)
  next
    case (Some j)
    show ?thesis using ex i
      by (simp add: upsert_old_app [OF \<open>findIndex (\<lambda>p. ProjectName p = pn) ps = Some i\<close> Some]
          map_update_same)
  qed
qed

lemma upsert_uniqueProjectNames:
  assumes "uniqueProjectNames ps"
  shows "uniqueProjectNames (upsert pn ai b ps)"
  using assms by (auto simp: uniqueProjectNames_def upsert_project_names list_ex_iff)

lemma list_all_update:
  assumes "list_all Q xs" and "Q y"
  shows "list_all Q (xs[i := y])"
  using assms set_update_subset_insert [of xs i y] by (auto simp: list_all_iff)

lemma upsert_uniquePackagesInProject:
  assumes "uniquePackagesInProject ps"
  shows "uniquePackagesInProject (upsert pn ai b ps)"
proof (cases "findIndex (\<lambda>p. ProjectName p = pn) ps")
  case None
  then show ?thesis using assms
    by (simp add: upsert_new_project uniquePackagesInProject_def)
next
  case (Some i)
  have i: "i < length ps" using findIndex_Some [OF Some] by simp
  have d: "distinct (map PackageName (Apps (ps ! i)))"
    using assms i by (simp add: uniquePackagesInProject_def list_all_length)
  show ?thesis
  proof (cases "findIndex (\<lambda>a. PackageName a = infoPackageName ai) (Apps (ps ! i))")
    case None
    have "infoPackageName ai \<notin> set (map PackageName (Apps (ps ! i)))"
      using None findIndex_None [of "\<lambda>a. PackageName a = infoPackageName ai" "Apps (ps ! i)"]
      by (auto simp: list_ex_iff)
    then show ?thesis using assms d
      unfolding upsert_new_app [OF Some None] uniquePackagesInProject_def
      by (intro list_all_update) simp_all
  next
    case (Some j)
    have j: "j < length (Apps (ps ! i))" using findIndex_Some [OF Some] by simp
    show ?thesis using assms d j
      unfolding upsert_old_app [OF \<open>findIndex (\<lambda>p. ProjectName p = pn) ps = Some i\<close> Some]
        uniquePackagesInProject_def
      by (intro list_all_update) (simp_all add: map_update_same)
  qed
qed


lemma updateAll_invariants:
  assumes "uniqueProjectNames (allProjects w)" and "uniquePackagesInProject (allProjects w)"
  shows "uniqueProjectNames (allProjects (updateAll E cs w)) \<and>
         uniquePackagesInProject (allProjects (updateAll E cs w))"
  using assms
proof (induction cs arbitrary: w)
  case Nil
  then show ?case by simp
next
  case (Cons c cs)
  obtain pn ai b where c: "c = (pn, ai, b)" by (cases c) auto
  show ?case
    unfolding c updateAll.simps
    by (rule Cons.IH)
       (simp_all add: allProjects_updateMetadata upsert_uniqueProjectNames
          upsert_uniquePackagesInProject Cons.prems)
qed

text \<open>
  The first listing's mutation is the second's whenever the incoming icon path is not
  empty, and it prepends the build in the same way.
\<close>

lemma upsert_first_listing_agrees:
  assumes "infoIconPath ai \<noteq> []"
  shows "upsert_first_listing pn ai b ps = upsert pn ai b ps"
  using assms by (simp add: upsert_first_listing_def upsert_def split: option.splits)

lemma targetApp_upsert_first_listing:
  "targetApp pn (infoPackageName ai) (upsert_first_listing pn ai b ps) =
     Some (case targetApp pn (infoPackageName ai) ps of
             None \<Rightarrow> \<lparr>AppName = infoAppName ai, PackageName = infoPackageName ai,
                      IconPath = infoIconPath ai, Builds = [b]\<rparr>
           | Some a \<Rightarrow> a\<lparr>AppName := infoAppName ai, IconPath := infoIconPath ai,
                         Builds := b # Builds a\<rparr>)"
proof (cases "findIndex (\<lambda>p. ProjectName p = pn) ps")
  case None
  then show ?thesis
    by (simp add: targetApp_def upsert_first_listing_def find_None_findIndex find_append_new)
next
  case (Some i)
  note fi = findIndex_Some [OF Some]
  show ?thesis
  proof (cases "findIndex (\<lambda>a. PackageName a = infoPackageName ai) (Apps (ps ! i))")
    case None
    then show ?thesis using Some fi
      by (simp add: targetApp_def upsert_first_listing_def find_None_findIndex find_append_new
          find_update_found)
  next
    case (Some j)
    note fj = findIndex_Some [OF Some]
    show ?thesis using \<open>findIndex (\<lambda>p. ProjectName p = pn) ps = Some i\<close> Some fi fj
      by (simp add: targetApp_def upsert_first_listing_def find_update_found)
  qed
qed

subsection \<open>Facts about the delete handlers\<close>

lemma findApp_None:
  "findApp pkg ps = None \<Longrightarrow> find (\<lambda>a. PackageName a = pkg) (concat (map Apps ps)) = None"
  by (induction ps) (auto simp: find_None_iff findIndex_None list_ex_iff split: option.splits)

lemma find_append_eq:
  "find P (xs @ ys) = (case find P xs of None \<Rightarrow> find P ys | Some x \<Rightarrow> Some x)"
  by (induction xs) auto

lemma findApp_Some:
  "findApp pkg ps = Some (i, j) \<Longrightarrow>
     i < length ps \<and> j < length (Apps (ps ! i)) \<and>
     PackageName (Apps (ps ! i) ! j) = pkg \<and>
     find (\<lambda>a. PackageName a = pkg) (concat (map Apps ps)) = Some (Apps (ps ! i) ! j)"
proof (induction ps arbitrary: i)
  case Nil
  then show ?case by simp
next
  case (Cons p ps)
  show ?case
  proof (cases "findIndex (\<lambda>a. PackageName a = pkg) (Apps p)")
    case None
    then obtain i' where i': "findApp pkg ps = Some (i', j)" "i = Suc i'"
      using Cons.prems by auto
    have "find (\<lambda>a. PackageName a = pkg) (Apps p) = None"
      using None by (rule find_None_findIndex)
    then show ?thesis using Cons.IH [OF i'(1)] i'(2) by (simp add: find_append_eq)
  next
    case (Some j')
    then have "i = 0" "j' = j" using Cons.prems by auto
    then show ?thesis using findIndex_Some [OF Some] by (simp add: find_append_eq)
  qed
qed

lemma filter_no_match:
  "\<not> list_ex (\<lambda>b. FileName b = fn) bs \<Longrightarrow> filter (\<lambda>b. FileName b \<noteq> fn) bs = bs"
  by (induction bs) auto

lemma findIndex_split:
  assumes "\<not> list_ex P pre" and "P p"
  shows "findIndex P (pre @ p # post) = Some (length pre)"
  using assms by (induction pre) auto

lemma allProjects_fold_Remove:
  "allProjects (fold (\<lambda>b w. snd (os_Remove E (g b) w)) bs w) = allProjects w"
  by (induction bs arbitrary: w) simp_all

lemma allProjects_handleDeleteApp:
  assumes "findIndex (\<lambda>p. list_ex (\<lambda>a. PackageName a = packageName) (Apps p)) (allProjects w) = Some i"
  shows "allProjects (snd (handleDeleteApp E deletePassword packageName w)) =
     (if Apps (((allProjects w)[i := (allProjects w ! i)\<lparr>Apps := filter (\<lambda>a. PackageName a \<noteq> packageName)
                                                  (Apps (allProjects w ! i))\<rparr>]) ! i) = []
      then filter (\<lambda>p. ProjectName p \<noteq> ProjectName (((allProjects w)[i := (allProjects w ! i)\<lparr>Apps := filter (\<lambda>a. PackageName a \<noteq> packageName)
                                                  (Apps (allProjects w ! i))\<rparr>]) ! i))
             ((allProjects w)[i := (allProjects w ! i)\<lparr>Apps := filter (\<lambda>a. PackageName a \<noteq> packageName)
                                                  (Apps (allProjects w ! i))\<rparr>])
      else (allProjects w)[i := (allProjects w ! i)\<lparr>Apps := filter (\<lambda>a. PackageName a \<noteq> packageName)
                                                  (Apps (allProjects w ! i))\<rparr>])"
    (is "_ = ?ps2")
proof -
  let ?w = "(mutex_Lock w)\<lparr>allProjects := ?ps2\<rparr>"
  obtain r w2 where sv: "saveMetadata E ?w = (r, w2)" by force
  have w2: "allProjects w2 = ?ps2"
    using allProjects_saveMetadata [of E ?w] sv by simp
  have "allProjects (snd (handleDeleteApp E deletePassword packageName w)) = allProjects w2"
    using assms sv
    by (cases r)
       (simp_all add: handleDeleteApp_def Let_def mutex_Lock_def mutex_Unlock_def
          allProjects_fold_Remove)
  then show ?thesis using w2 by simp
qed

lemma deleteBuild_keeps_projects:
  "map ProjectName (allProjects (snd (handleDeleteBuild E password packageName fileName w))) =
   map ProjectName (allProjects w)"
proof (cases "password = deletePassword")
  case False
  then show ?thesis by (simp add: handleDeleteBuild_def)
next
  case pw: True
  show ?thesis
  proof (cases "findApp packageName (allProjects w)")
    case None
    then show ?thesis using pw
      by (simp add: handleDeleteBuild_def Let_def mutex_Lock_def mutex_Unlock_def)
  next
    case (Some ij)
    obtain i j where ij: "ij = (i, j)" by (cases ij) auto
    note f = findApp_Some [OF Some [unfolded ij]]
    let ?ps0 = "allProjects w"
    let ?nb = "filter (\<lambda>b. FileName b \<noteq> fileName) (Builds (Apps (?ps0 ! i) ! j))"
    let ?ps1 = "?ps0[i := (?ps0 ! i)\<lparr>Apps := (Apps (?ps0 ! i))[j := (Apps (?ps0 ! i) ! j)\<lparr>Builds := ?nb\<rparr>]\<rparr>]"
    let ?ps2 = "(if ?nb = []
                 then ?ps1[i := (?ps1 ! i)\<lparr>Apps := filter (\<lambda>a. PackageName a \<noteq> packageName)
                                                           (Apps (?ps1 ! i))\<rparr>]
                 else ?ps1)"
    have n1: "map ProjectName ?ps1 = map ProjectName ?ps0"
      using f by (simp add: map_update_same)
    have n2: "map ProjectName ?ps2 = map ProjectName ?ps0"
      using f n1 by (simp add: map_update_same)
    let ?w = "(mutex_Lock w)\<lparr>allProjects := ?ps2\<rparr>"
    obtain r w2 where sv: "saveMetadata E ?w = (r, w2)" by force
    have w2: "allProjects w2 = ?ps2"
      using allProjects_saveMetadata [of E ?w] sv by simp
    show ?thesis
    proof (cases "list_ex (\<lambda>b. FileName b = fileName) (Builds (Apps (?ps0 ! i) ! j))")
      case False
      then show ?thesis using pw Some ij n1
        by (simp add: handleDeleteBuild_def Let_def mutex_Lock_def mutex_Unlock_def)
    next
      case True
      have "allProjects (snd (handleDeleteBuild E password packageName fileName w)) = ?ps2"
        using pw Some ij True sv w2
        by (cases r) (simp_all add: handleDeleteBuild_def Let_def mutex_Lock_def mutex_Unlock_def)
      then show ?thesis using n2 by simp
    qed
  qed
qed


lemma deleteBuild_unknown_package:
  assumes "find (\<lambda>a. PackageName a = packageName) (concat (map Apps (allProjects w))) = None"
  shows "handleDeleteBuild E deletePassword packageName fileName w =
           (\<lparr>status = 404, body = BuildNotFound\<rparr>, mutex_Unlock (mutex_Lock w))"
proof (cases "findApp packageName (allProjects w)")
  case None
  then show ?thesis
    by (simp add: handleDeleteBuild_def Let_def mutex_Lock_def mutex_Unlock_def record_event_def)
next
  case (Some ij)
  obtain i j where ij: "ij = (i, j)" by (cases ij) auto
  show ?thesis using findApp_Some [OF Some [unfolded ij]] assms by simp
qed

subsection \<open>Facts about the persistence codec\<close>

lemma paths_differ: "metadataFilePath \<noteq> backupPath"
  by (simp add: metadataFilePath_def backupPath_def)

lemma saveMetadata_backup_step:
  assumes "files w metadataFilePath = Some old"
      and "fault E (length (trace w)) = None"
      and "fault E (Suc (length (trace w))) = None"
  shows "saveMetadata E w =
     (case marshal E (allProjects w) of
        Inl err \<Rightarrow> (Some err, snd (os_Rename E backupPath metadataFilePath
            (w\<lparr>files := ((files w)(metadataFilePath := None))(backupPath \<mapsto> old),
               trace := trace w @ [Stat metadataFilePath, Rename metadataFilePath backupPath]\<rparr>)))
      | Inr data \<Rightarrow>
         (case os_WriteFile E metadataFilePath data
            (w\<lparr>files := ((files w)(metadataFilePath := None))(backupPath \<mapsto> old),
               trace := trace w @ [Stat metadataFilePath, Rename metadataFilePath backupPath]\<rparr>) of
            (Some err, w3) \<Rightarrow>
              (Some (Errorf WriteFailed err), snd (os_Rename E backupPath metadataFilePath w3))
          | (None, w3) \<Rightarrow> (None, snd (os_Remove E backupPath w3))))"
  using assms
  by (simp add: saveMetadata_def os_Stat_def os_Rename_def record_event_def)

lemma saveMetadata_backup_fails:
  assumes "files w metadataFilePath = Some old"
      and "fault E (length (trace w)) = None"
      and "fault E (Suc (length (trace w))) = Some f"
  shows "saveMetadata E w =
           (Some (Errorf BackupFailed (fault_error f)),
            w\<lparr>trace := trace w @ [Stat metadataFilePath, Rename metadataFilePath backupPath]\<rparr>)"
  using assms by (simp add: saveMetadata_def os_Stat_def os_Rename_def record_event_def)

lemma saveMetadata_skip_backup:
  assumes "fst (os_Stat E metadataFilePath w) \<noteq> None"
  shows "saveMetadata E w =
     (case marshal E (allProjects w) of
        Inl err \<Rightarrow> (Some err, snd (os_Rename E backupPath metadataFilePath
            (w\<lparr>trace := trace w @ [Stat metadataFilePath]\<rparr>)))
      | Inr data \<Rightarrow>
         (case os_WriteFile E metadataFilePath data
            (w\<lparr>trace := trace w @ [Stat metadataFilePath]\<rparr>) of
            (Some err, w3) \<Rightarrow>
              (Some (Errorf WriteFailed err), snd (os_Rename E backupPath metadataFilePath w3))
          | (None, w3) \<Rightarrow> (None, snd (os_Remove E backupPath w3))))"
  using assms
  by (auto simp: saveMetadata_def os_Stat_def record_event_def split: option.splits)

lemma loadMetadata_read_error:
  assumes "fault E (Suc (length (trace w))) = Some f" and "\<not> os_IsNotExist (fault_error f)"
  shows "fst (loadMetadata E w) = Some (fault_error f)"
    and "allProjects (snd (loadMetadata E w)) = allProjects w"
  using assms
  by (simp_all add: loadMetadata_def os_ReadFile_def mutex_Lock_def mutex_Unlock_def
      record_event_def Let_def)

section \<open>Properties of the persistence codec\<close>

text \<open>
  C1. \<open>saveMetadata\<close> follows the backup-then-write protocol, on every path. The trace
  gives the calls in their order, the first component the error returned.
  \<^item> When the metadata file exists (\<open>os.Stat\<close> succeeds) it is first renamed to the
    backup path. If that rename fails, its error is returned, wrapped by the message of
    line 411, and nothing else is done. With the rename done: if the encoder fails, the
    backup is renamed back to the primary path and the encoder's error is returned as
    it is; if the write of the encoded registry to the primary path fails, the backup is
    renamed back and the write's error is returned, wrapped by the message of line 426;
    if the write succeeds, the backup is removed and no error is returned.
  \<^item> When \<open>os.Stat\<close> fails (no file yet, as at the first save, or an error of the
    system's), no backup is made and the same steps follow: the registry is encoded and
    written to the primary path; on an encoder or write failure the rename of the backup
    path to the primary path is called and the error returned as above; on success the
    remove of the backup path is called and the encoded registry is at the primary path.
  In the first case the files are also given, for a restoring rename or a remove that
  does not fail itself (the source drops its result): the old contents are back at the
  primary path after a failure, the new contents are there after a success, and no
  backup is left.
\<close>

theorem saveMetadata_protocol:
  "(files w metadataFilePath = Some old \<and> fault E (length (trace w)) = None \<and>
    fault E (length (trace w) + 1) = Some f \<longrightarrow>
       saveMetadata E w =
         (Some (Errorf BackupFailed (fault_error f)),
          w\<lparr>trace := trace w @ [Stat metadataFilePath, Rename metadataFilePath backupPath]\<rparr>)) \<and>
   (files w metadataFilePath = Some old \<and> fault E (length (trace w)) = None \<and>
    fault E (length (trace w) + 1) = None \<and> marshal E (allProjects w) = Inl e \<longrightarrow>
       fst (saveMetadata E w) = Some e \<and>
       trace (snd (saveMetadata E w)) =
         trace w @ [Stat metadataFilePath, Rename metadataFilePath backupPath,
                    Rename backupPath metadataFilePath] \<and>
       (fault E (length (trace w) + 2) = None \<longrightarrow>
          files (snd (saveMetadata E w)) = (files w)(backupPath := None))) \<and>
   (files w metadataFilePath = Some old \<and> fault E (length (trace w)) = None \<and>
    fault E (length (trace w) + 1) = None \<and> marshal E (allProjects w) = Inr data \<and>
    fault E (length (trace w) + 2) = Some f \<longrightarrow>
       fst (saveMetadata E w) = Some (Errorf WriteFailed (fault_error f)) \<and>
       trace (snd (saveMetadata E w)) =
         trace w @ [Stat metadataFilePath, Rename metadataFilePath backupPath,
                    WriteFile metadataFilePath data, Rename backupPath metadataFilePath] \<and>
       (fault E (length (trace w) + 3) = None \<longrightarrow>
          files (snd (saveMetadata E w)) = (files w)(backupPath := None))) \<and>
   (files w metadataFilePath = Some old \<and> fault E (length (trace w)) = None \<and>
    fault E (length (trace w) + 1) = None \<and> marshal E (allProjects w) = Inr data \<and>
    fault E (length (trace w) + 2) = None \<longrightarrow>
       fst (saveMetadata E w) = None \<and>
       trace (snd (saveMetadata E w)) =
         trace w @ [Stat metadataFilePath, Rename metadataFilePath backupPath,
                    WriteFile metadataFilePath data, Remove backupPath] \<and>
       files (snd (saveMetadata E w)) metadataFilePath = Some data \<and>
       (fault E (length (trace w) + 3) = None \<longrightarrow>
          files (snd (saveMetadata E w)) =
            (files w)(metadataFilePath \<mapsto> data, backupPath := None))) \<and>
   (fst (os_Stat E metadataFilePath w) \<noteq> None \<and> marshal E (allProjects w) = Inl e \<longrightarrow>
       fst (saveMetadata E w) = Some e \<and>
       trace (snd (saveMetadata E w)) =
         trace w @ [Stat metadataFilePath, Rename backupPath metadataFilePath]) \<and>
   (fst (os_Stat E metadataFilePath w) \<noteq> None \<and> marshal E (allProjects w) = Inr data \<and>
    fault E (length (trace w) + 1) = Some f \<longrightarrow>
       fst (saveMetadata E w) = Some (Errorf WriteFailed (fault_error f)) \<and>
       trace (snd (saveMetadata E w)) =
         trace w @ [Stat metadataFilePath, WriteFile metadataFilePath data,
                    Rename backupPath metadataFilePath]) \<and>
   (fst (os_Stat E metadataFilePath w) \<noteq> None \<and> marshal E (allProjects w) = Inr data \<and>
    fault E (length (trace w) + 1) = None \<longrightarrow>
       fst (saveMetadata E w) = None \<and>
       trace (snd (saveMetadata E w)) =
         trace w @ [Stat metadataFilePath, WriteFile metadataFilePath data,
                    Remove backupPath] \<and>
       files (snd (saveMetadata E w)) metadataFilePath = Some data)"
proof (intro conjI)
  show "files w metadataFilePath = Some old \<and> fault E (length (trace w)) = None \<and>
    fault E (length (trace w) + 1) = Some f \<longrightarrow>
       saveMetadata E w =
         (Some (Errorf BackupFailed (fault_error f)),
          w\<lparr>trace := trace w @ [Stat metadataFilePath, Rename metadataFilePath backupPath]\<rparr>)"
    by (simp add: saveMetadata_backup_fails)
next
  show "files w metadataFilePath = Some old \<and> fault E (length (trace w)) = None \<and>
    fault E (length (trace w) + 1) = None \<and> marshal E (allProjects w) = Inl e \<longrightarrow>
       fst (saveMetadata E w) = Some e \<and>
       trace (snd (saveMetadata E w)) =
         trace w @ [Stat metadataFilePath, Rename metadataFilePath backupPath,
                    Rename backupPath metadataFilePath] \<and>
       (fault E (length (trace w) + 2) = None \<longrightarrow>
          files (snd (saveMetadata E w)) = (files w)(backupPath := None))"
  proof (intro impI)
    assume h: "files w metadataFilePath = Some old \<and> fault E (length (trace w)) = None \<and>
      fault E (length (trace w) + 1) = None \<and> marshal E (allProjects w) = Inl e"
    then have a: "files w metadataFilePath = Some old" "fault E (length (trace w)) = None"
      "fault E (Suc (length (trace w))) = None" and m: "marshal E (allProjects w) = Inl e"
      by simp_all
    note step = saveMetadata_backup_step [OF a]
    show "fst (saveMetadata E w) = Some e \<and>
       trace (snd (saveMetadata E w)) =
         trace w @ [Stat metadataFilePath, Rename metadataFilePath backupPath,
                    Rename backupPath metadataFilePath] \<and>
       (fault E (length (trace w) + 2) = None \<longrightarrow>
          files (snd (saveMetadata E w)) = (files w)(backupPath := None))"
      using a(1) paths_differ
      by (auto simp: step m os_Rename_def record_event_def fun_eq_iff split: option.splits)
  qed
next
  show "files w metadataFilePath = Some old \<and> fault E (length (trace w)) = None \<and>
    fault E (length (trace w) + 1) = None \<and> marshal E (allProjects w) = Inr data \<and>
    fault E (length (trace w) + 2) = Some f \<longrightarrow>
       fst (saveMetadata E w) = Some (Errorf WriteFailed (fault_error f)) \<and>
       trace (snd (saveMetadata E w)) =
         trace w @ [Stat metadataFilePath, Rename metadataFilePath backupPath,
                    WriteFile metadataFilePath data, Rename backupPath metadataFilePath] \<and>
       (fault E (length (trace w) + 3) = None \<longrightarrow>
          files (snd (saveMetadata E w)) = (files w)(backupPath := None))"
  proof (intro impI)
    assume h: "files w metadataFilePath = Some old \<and> fault E (length (trace w)) = None \<and>
      fault E (length (trace w) + 1) = None \<and> marshal E (allProjects w) = Inr data \<and>
      fault E (length (trace w) + 2) = Some f"
    then have a: "files w metadataFilePath = Some old" "fault E (length (trace w)) = None"
      "fault E (Suc (length (trace w))) = None" and m: "marshal E (allProjects w) = Inr data"
      and wf: "fault E (Suc (Suc (length (trace w)))) = Some f"
      by simp_all
    note step = saveMetadata_backup_step [OF a]
    have three: "length (trace w) + 3 = Suc (Suc (Suc (length (trace w))))" by simp
    show "fst (saveMetadata E w) = Some (Errorf WriteFailed (fault_error f)) \<and>
       trace (snd (saveMetadata E w)) =
         trace w @ [Stat metadataFilePath, Rename metadataFilePath backupPath,
                    WriteFile metadataFilePath data, Rename backupPath metadataFilePath] \<and>
       (fault E (length (trace w) + 3) = None \<longrightarrow>
          files (snd (saveMetadata E w)) = (files w)(backupPath := None))"
      unfolding three using a(1) paths_differ
      by (cases f)
         (auto simp: step m wf os_WriteFile_def os_Rename_def record_event_def fun_eq_iff
            split: option.splits)
  qed
next
  show "files w metadataFilePath = Some old \<and> fault E (length (trace w)) = None \<and>
    fault E (length (trace w) + 1) = None \<and> marshal E (allProjects w) = Inr data \<and>
    fault E (length (trace w) + 2) = None \<longrightarrow>
       fst (saveMetadata E w) = None \<and>
       trace (snd (saveMetadata E w)) =
         trace w @ [Stat metadataFilePath, Rename metadataFilePath backupPath,
                    WriteFile metadataFilePath data, Remove backupPath] \<and>
       files (snd (saveMetadata E w)) metadataFilePath = Some data \<and>
       (fault E (length (trace w) + 3) = None \<longrightarrow>
          files (snd (saveMetadata E w)) =
            (files w)(metadataFilePath \<mapsto> data, backupPath := None))"
  proof (intro impI)
    assume h: "files w metadataFilePath = Some old \<and> fault E (length (trace w)) = None \<and>
      fault E (length (trace w) + 1) = None \<and> marshal E (allProjects w) = Inr data \<and>
      fault E (length (trace w) + 2) = None"
    then have a: "files w metadataFilePath = Some old" "fault E (length (trace w)) = None"
      "fault E (Suc (length (trace w))) = None" and m: "marshal E (allProjects w) = Inr data"
      and wf: "fault E (Suc (Suc (length (trace w)))) = None"
      by simp_all
    note step = saveMetadata_backup_step [OF a]
    have three: "length (trace w) + 3 = Suc (Suc (Suc (length (trace w))))" by simp
    show "fst (saveMetadata E w) = None \<and>
       trace (snd (saveMetadata E w)) =
         trace w @ [Stat metadataFilePath, Rename metadataFilePath backupPath,
                    WriteFile metadataFilePath data, Remove backupPath] \<and>
       files (snd (saveMetadata E w)) metadataFilePath = Some data \<and>
       (fault E (length (trace w) + 3) = None \<longrightarrow>
          files (snd (saveMetadata E w)) =
            (files w)(metadataFilePath \<mapsto> data, backupPath := None))"
      unfolding three using a(1) paths_differ
      by (auto simp: step m wf os_WriteFile_def os_Remove_def record_event_def fun_eq_iff
          split: option.splits)
  qed
next
  show "fst (os_Stat E metadataFilePath w) \<noteq> None \<and> marshal E (allProjects w) = Inl e \<longrightarrow>
       fst (saveMetadata E w) = Some e \<and>
       trace (snd (saveMetadata E w)) =
         trace w @ [Stat metadataFilePath, Rename backupPath metadataFilePath]"
  proof (intro impI)
    assume h: "fst (os_Stat E metadataFilePath w) \<noteq> None \<and> marshal E (allProjects w) = Inl e"
    then have s: "fst (os_Stat E metadataFilePath w) \<noteq> None"
      and m: "marshal E (allProjects w) = Inl e" by simp_all
    show "fst (saveMetadata E w) = Some e \<and>
       trace (snd (saveMetadata E w)) =
         trace w @ [Stat metadataFilePath, Rename backupPath metadataFilePath]"
      by (simp add: saveMetadata_skip_backup [OF s] m os_Rename_def record_event_def
          split: option.splits)
  qed
next
  show "fst (os_Stat E metadataFilePath w) \<noteq> None \<and> marshal E (allProjects w) = Inr data \<and>
    fault E (length (trace w) + 1) = Some f \<longrightarrow>
       fst (saveMetadata E w) = Some (Errorf WriteFailed (fault_error f)) \<and>
       trace (snd (saveMetadata E w)) =
         trace w @ [Stat metadataFilePath, WriteFile metadataFilePath data,
                    Rename backupPath metadataFilePath]"
  proof (intro impI)
    assume h: "fst (os_Stat E metadataFilePath w) \<noteq> None \<and> marshal E (allProjects w) = Inr data \<and>
      fault E (length (trace w) + 1) = Some f"
    then have s: "fst (os_Stat E metadataFilePath w) \<noteq> None"
      and m: "marshal E (allProjects w) = Inr data"
      and wf: "fault E (Suc (length (trace w))) = Some f" by simp_all
    show "fst (saveMetadata E w) = Some (Errorf WriteFailed (fault_error f)) \<and>
       trace (snd (saveMetadata E w)) =
         trace w @ [Stat metadataFilePath, WriteFile metadataFilePath data,
                    Rename backupPath metadataFilePath]"
      by (cases f)
         (simp_all add: saveMetadata_skip_backup [OF s] m wf os_WriteFile_def os_Rename_def
            record_event_def split: option.splits)
  qed
next
  show "fst (os_Stat E metadataFilePath w) \<noteq> None \<and> marshal E (allProjects w) = Inr data \<and>
    fault E (length (trace w) + 1) = None \<longrightarrow>
       fst (saveMetadata E w) = None \<and>
       trace (snd (saveMetadata E w)) =
         trace w @ [Stat metadataFilePath, WriteFile metadataFilePath data,
                    Remove backupPath] \<and>
       files (snd (saveMetadata E w)) metadataFilePath = Some data"
  proof (intro impI)
    assume h: "fst (os_Stat E metadataFilePath w) \<noteq> None \<and> marshal E (allProjects w) = Inr data \<and>
      fault E (length (trace w) + 1) = None"
    then have s: "fst (os_Stat E metadataFilePath w) \<noteq> None"
      and m: "marshal E (allProjects w) = Inr data"
      and wf: "fault E (Suc (length (trace w))) = None" by simp_all
    show "fst (saveMetadata E w) = None \<and>
       trace (snd (saveMetadata E w)) =
         trace w @ [Stat metadataFilePath, WriteFile metadataFilePath data,
                    Remove backupPath] \<and>
       files (snd (saveMetadata E w)) metadataFilePath = Some data"
      using paths_differ
      by (simp add: saveMetadata_skip_backup [OF s] m wf os_WriteFile_def os_Remove_def
          record_event_def split: option.splits)
  qed
qed


theorem saveMetadata_protocol_witness:
  "saveMetadata (faultEnv 1) (world1 [\<lparr>ProjectName = ''P'', Apps = []\<rparr>]) =
     (Some (Errorf BackupFailed (ErrOS ''io'')),
      (world1 [\<lparr>ProjectName = ''P'', Apps = []\<rparr>])
        \<lparr>trace := [Stat metadataFilePath, Rename metadataFilePath backupPath]\<rparr>) \<and>
   fst (saveMetadata badCodecEnv (world1 [\<lparr>ProjectName = ''P'', Apps = []\<rparr>])) = Some (ErrJSON ''m'') \<and>
   trace (snd (saveMetadata badCodecEnv (world1 [\<lparr>ProjectName = ''P'', Apps = []\<rparr>]))) =
     [Stat metadataFilePath, Rename metadataFilePath backupPath,
      Rename backupPath metadataFilePath] \<and>
   files (snd (saveMetadata badCodecEnv (world1 [\<lparr>ProjectName = ''P'', Apps = []\<rparr>]))) =
     [metadataFilePath \<mapsto> ''old''] \<and>
   fst (saveMetadata (faultEnv 2) (world1 [\<lparr>ProjectName = ''P'', Apps = []\<rparr>])) =
     Some (Errorf WriteFailed (ErrOS ''io'')) \<and>
   trace (snd (saveMetadata (faultEnv 2) (world1 [\<lparr>ProjectName = ''P'', Apps = []\<rparr>]))) =
     [Stat metadataFilePath, Rename metadataFilePath backupPath,
      WriteFile metadataFilePath ''P'', Rename backupPath metadataFilePath] \<and>
   files (snd (saveMetadata (faultEnv 2) (world1 [\<lparr>ProjectName = ''P'', Apps = []\<rparr>]))) =
     [metadataFilePath \<mapsto> ''old''] \<and>
   fst (saveMetadata goodEnv (world1 [\<lparr>ProjectName = ''P'', Apps = []\<rparr>])) = None \<and>
   trace (snd (saveMetadata goodEnv (world1 [\<lparr>ProjectName = ''P'', Apps = []\<rparr>]))) =
     [Stat metadataFilePath, Rename metadataFilePath backupPath,
      WriteFile metadataFilePath ''P'', Remove backupPath] \<and>
   files (snd (saveMetadata goodEnv (world1 [\<lparr>ProjectName = ''P'', Apps = []\<rparr>]))) =
     [metadataFilePath \<mapsto> ''P''] \<and>
   fst (saveMetadata badCodecEnv (world0 [\<lparr>ProjectName = ''P'', Apps = []\<rparr>])) = Some (ErrJSON ''m'') \<and>
   trace (snd (saveMetadata badCodecEnv (world0 [\<lparr>ProjectName = ''P'', Apps = []\<rparr>]))) =
     [Stat metadataFilePath, Rename backupPath metadataFilePath] \<and>
   fst (saveMetadata (faultEnv 1) (world0 [\<lparr>ProjectName = ''P'', Apps = []\<rparr>])) =
     Some (Errorf WriteFailed (ErrOS ''io'')) \<and>
   trace (snd (saveMetadata (faultEnv 1) (world0 [\<lparr>ProjectName = ''P'', Apps = []\<rparr>]))) =
     [Stat metadataFilePath, WriteFile metadataFilePath ''P'',
      Rename backupPath metadataFilePath] \<and>
   fst (saveMetadata goodEnv (world0 [\<lparr>ProjectName = ''P'', Apps = []\<rparr>])) = None \<and>
   trace (snd (saveMetadata goodEnv (world0 [\<lparr>ProjectName = ''P'', Apps = []\<rparr>]))) =
     [Stat metadataFilePath, WriteFile metadataFilePath ''P'', Remove backupPath] \<and>
   files (snd (saveMetadata goodEnv (world0 [\<lparr>ProjectName = ''P'', Apps = []\<rparr>]))) metadataFilePath =
     Some ''P''"
proof -
  let ?ps = "[\<lparr>ProjectName = ''P'', Apps = []\<rparr>]"
  have nb: "[metadataFilePath \<mapsto> ''old''](backupPath := None) = [metadataFilePath \<mapsto> ''old'']"
    using paths_differ by (simp add: fun_eq_iff)
  have np: "[metadataFilePath \<mapsto> ''P''](backupPath := None) = [metadataFilePath \<mapsto> ''P'']"
    using paths_differ by (simp add: fun_eq_iff)
  have s0: "fst (os_Stat E metadataFilePath (world0 ?ps)) \<noteq> None" for E
    by (simp add: os_Stat_def world0_def split: option.splits)
  show ?thesis
    using saveMetadata_protocol [of "world1 ?ps" "''old''" "faultEnv 1" "Torn (ErrOS ''io'') ''x''"
            "ErrJSON ''m''" "''P''"]
          saveMetadata_protocol [of "world1 ?ps" "''old''" badCodecEnv "Fails ErrNotExist"
            "ErrJSON ''m''" "''P''"]
          saveMetadata_protocol [of "world1 ?ps" "''old''" "faultEnv 2" "Torn (ErrOS ''io'') ''x''"
            "ErrJSON ''m''" "''P''"]
          saveMetadata_protocol [of "world1 ?ps" "''old''" goodEnv "Fails ErrNotExist"
            "ErrJSON ''m''" "''P''"]
          saveMetadata_protocol [of "world0 ?ps" "''old''" badCodecEnv "Fails ErrNotExist"
            "ErrJSON ''m''" "''P''"]
          saveMetadata_protocol [of "world0 ?ps" "''old''" "faultEnv 1" "Torn (ErrOS ''io'') ''x''"
            "ErrJSON ''m''" "''P''"]
          saveMetadata_protocol [of "world0 ?ps" "''old''" goodEnv "Fails ErrNotExist"
            "ErrJSON ''m''" "''P''"]
          s0 [of badCodecEnv] s0 [of "faultEnv 1"] s0 [of goodEnv]
    by (simp add: badCodecEnv_def faultEnv_def goodEnv_def world1_def world0_def nb np)
qed

text \<open>
  C7. \<open>loadMetadata\<close>: when the metadata file does not exist, the registry becomes
  empty and no error is returned; when the file is read and the decoder fails, the
  decoder's error is returned; when the file is read and the decoder succeeds, no error
  is returned and the registry is the decoded value.
\<close>

theorem loadMetadata_cases:
  "(files w metadataFilePath = None \<and> fault E (Suc (length (trace w))) = None \<longrightarrow>
      fst (loadMetadata E w) = None \<and> allProjects (snd (loadMetadata E w)) = []) \<and>
   (files w metadataFilePath = Some data \<and> fault E (Suc (length (trace w))) = None \<and>
    unmarshal E data (allProjects w) = (ps, Some e) \<longrightarrow>
      fst (loadMetadata E w) = Some e) \<and>
   (files w metadataFilePath = Some data \<and> fault E (Suc (length (trace w))) = None \<and>
    unmarshal E data (allProjects w) = (ps, None) \<longrightarrow>
      fst (loadMetadata E w) = None \<and> allProjects (snd (loadMetadata E w)) = ps)"
  by (simp add: loadMetadata_def os_ReadFile_def mutex_Lock_def mutex_Unlock_def record_event_def
      Let_def)

theorem loadMetadata_cases_witness:
  "fst (loadMetadata goodEnv (world0 [\<lparr>ProjectName = ''P'', Apps = []\<rparr>])) = None \<and>
   allProjects (snd (loadMetadata goodEnv (world0 [\<lparr>ProjectName = ''P'', Apps = []\<rparr>]))) = [] \<and>
   fst (loadMetadata badCodecEnv (world1 [])) = Some (ErrJSON ''u'') \<and>
   fst (loadMetadata goodEnv (world1 [])) = None \<and>
   allProjects (snd (loadMetadata goodEnv (world1 []))) = [\<lparr>ProjectName = ''old'', Apps = []\<rparr>]"
  using loadMetadata_cases [of "world0 [\<lparr>ProjectName = ''P'', Apps = []\<rparr>]" goodEnv "''old''" "[]" "ErrJSON ''u''"]
        loadMetadata_cases [of "world1 []" badCodecEnv "''old''" "[]" "ErrJSON ''u''"]
        loadMetadata_cases [of "world1 []" goodEnv "''old''" "[\<lparr>ProjectName = ''old'', Apps = []\<rparr>]" "ErrJSON ''u''"]
  by (simp add: goodEnv_def badCodecEnv_def world0_def world1_def)

section \<open>Properties of the registry store\<close>

text \<open>
  C4. After every call of \<open>updateMetadata\<close> (the upsert of a build), whatever the
  outcome of the save, the app entry the call is aimed at exists, the new build is the
  first element of its build list, and the builds it held before the call follow in
  their previous order (none if the entry was created by the call).
\<close>

theorem upsert_prepends_build:
  "\<exists>a. targetApp projectName (infoPackageName appInfo)
          (allProjects (snd (updateMetadata E projectName appInfo newBuild w))) = Some a \<and>
       Builds a = newBuild #
         (case targetApp projectName (infoPackageName appInfo) (allProjects w) of
            None \<Rightarrow> []
          | Some a0 \<Rightarrow> Builds a0)"
  by (simp add: allProjects_updateMetadata targetApp_upsert split: option.splits)

text \<open>
  C8. The first listing of \<open>updateMetadata\<close> (lines 300-304) overwrites the icon path
  of an existing app entry with the incoming one also when that is empty. On a registry
  whose app entry holds the icon path \<open>static/icons/a.png\<close>, an upload of the same
  package with an empty icon path (what \<open>handleApiUpload\<close> passes when the icon
  cannot be extracted, lines 210-214) succeeds and leaves the entry with an empty icon
  path: the stored icon is erased, where the property asks that it be kept.
\<close>

theorem first_listing_erases_icon:
  "fst (updateMetadata_first_listing goodEnv ''P'' (info ''a'' []) (build ''g'')
          (world0 [\<lparr>ProjectName = ''P'', Apps = [app ''a'' ''static/icons/a.png'' [''f'']]\<rparr>])) = None \<and>
   allProjects (snd (updateMetadata_first_listing goodEnv ''P'' (info ''a'' []) (build ''g'')
          (world0 [\<lparr>ProjectName = ''P'', Apps = [app ''a'' ''static/icons/a.png'' [''f'']]\<rparr>]))) =
     [\<lparr>ProjectName = ''P'',
       Apps = [\<lparr>AppName = ''New'', PackageName = ''a'', IconPath = [],
                Builds = [build ''g'', build ''f'']\<rparr>]\<rparr>]"
  by (simp add: updateMetadata_first_listing_def saveMetadata_first_listing_def
      upsert_first_listing_def os_defs example_defs Let_def)

text \<open>
  The second listing (lines 840-845) guards the assignment: when the app entry an upload
  is aimed at already exists, the call overwrites its \<open>AppName\<close> in every case, and
  its \<open>IconPath\<close> only when the incoming icon path is not empty.
\<close>

theorem upsert_keeps_icon:
  assumes "targetApp projectName (infoPackageName appInfo) (allProjects w) = Some a"
  shows "\<exists>a'. targetApp projectName (infoPackageName appInfo)
            (allProjects (snd (updateMetadata E projectName appInfo newBuild w))) = Some a' \<and>
          AppName a' = infoAppName appInfo \<and>
          IconPath a' = (if infoIconPath appInfo = [] then IconPath a else infoIconPath appInfo)"
  using assms by (simp add: allProjects_updateMetadata targetApp_upsert)

theorem upsert_keeps_icon_witness:
  "targetApp ''P'' (infoPackageName (info ''a'' []))
      (allProjects (world0 [\<lparr>ProjectName = ''P'', Apps = [app ''a'' ''i.png'' [''f'']]\<rparr>]))
     = Some (app ''a'' ''i.png'' [''f'']) \<and>
   (\<exists>a'. targetApp ''P'' (infoPackageName (info ''a'' []))
            (allProjects (snd (updateMetadata goodEnv ''P'' (info ''a'' []) (build ''g'')
               (world0 [\<lparr>ProjectName = ''P'', Apps = [app ''a'' ''i.png'' [''f'']]\<rparr>])))) = Some a' \<and>
          AppName a' = ''New'' \<and> IconPath a' = ''i.png'')"
proof -
  have h: "targetApp ''P'' (infoPackageName (info ''a'' []))
      (allProjects (world0 [\<lparr>ProjectName = ''P'', Apps = [app ''a'' ''i.png'' [''f'']]\<rparr>]))
     = Some (app ''a'' ''i.png'' [''f''])"
    by (simp add: targetApp_def example_defs)
  show ?thesis
    using h upsert_keeps_icon [OF h, of goodEnv "build ''g''"]
    by (simp add: example_defs)
qed

text \<open>
  C6. With a password that is not the configured delete password, \<open>handleDeleteBuild\<close>
  and \<open>handleDeleteApp\<close> answer 401 and return the world as it was: the registry and
  the files are untouched, and the trace has no new event, so the mutex was not locked.
  This holds for every registry, package name and file name.
\<close>

theorem delete_wrong_password:
  assumes "password \<noteq> deletePassword"
  shows "handleDeleteBuild E password packageName fileName w =
           (\<lparr>status = 401, body = DeletePasswordWrong\<rparr>, w) \<and>
         handleDeleteApp E password packageName w =
           (\<lparr>status = 401, body = DeletePasswordWrong\<rparr>, w)"
  using assms by (simp add: handleDeleteBuild_def handleDeleteApp_def)

theorem delete_wrong_password_witness:
  "''0000'' \<noteq> deletePassword \<and>
   handleDeleteBuild goodEnv ''0000'' ''a'' ''f'' (world1 [\<lparr>ProjectName = ''P'', Apps = [app ''a'' [] [''f'']]\<rparr>]) =
     (\<lparr>status = 401, body = DeletePasswordWrong\<rparr>,
      world1 [\<lparr>ProjectName = ''P'', Apps = [app ''a'' [] [''f'']]\<rparr>]) \<and>
   handleDeleteApp goodEnv ''0000'' ''a'' (world1 [\<lparr>ProjectName = ''P'', Apps = [app ''a'' [] [''f'']]\<rparr>]) =
     (\<lparr>status = 401, body = DeletePasswordWrong\<rparr>,
      world1 [\<lparr>ProjectName = ''P'', Apps = [app ''a'' [] [''f'']]\<rparr>])"
proof -
  have h: "''0000'' \<noteq> deletePassword" by (simp add: deletePassword_def)
  show ?thesis
    using h delete_wrong_password [OF h, of goodEnv "''a''" "''f''"
        "world1 [\<lparr>ProjectName = ''P'', Apps = [app ''a'' [] [''f'']]\<rparr>]"]
    by simp
qed

text \<open>
  C3. Two uploads of one package under two project names, starting from the empty
  registry, leave two app entries of that package in the registry, one in each project:
  \<open>updateMetadata\<close> looks for the package in the project of the given name only
  (lines 824-830), while the struct comment of line 366 and the lookups of lines 508-519,
  680-701 and 751-766 take the package name as a key of the whole registry.
\<close>

theorem upload_same_package_two_projects:
  "allProjects (updateAll goodEnv
       [(''P'', info ''a'' [], build ''f''), (''Q'', info ''a'' [], build ''g'')] (world0 [])) =
     [\<lparr>ProjectName = ''P'', Apps = [\<lparr>AppName = ''New'', PackageName = ''a'', IconPath = [], Builds = [build ''f'']\<rparr>]\<rparr>,
      \<lparr>ProjectName = ''Q'', Apps = [\<lparr>AppName = ''New'', PackageName = ''a'', IconPath = [], Builds = [build ''g'']\<rparr>]\<rparr>] \<and>
   \<not> uniquePackagesInRegistry (allProjects (updateAll goodEnv
       [(''P'', info ''a'' [], build ''f''), (''Q'', info ''a'' [], build ''g'')] (world0 [])))"
  by (simp add: allProjects_updateMetadata upsert_def uniquePackagesInRegistry_def info_def world0_def)

text \<open>
  After these two uploads the build uploaded under the second project cannot be deleted
  (the lookup stops at the first entry of the package), and deleting the app answers
  that it is deleted while the second project still lists it.
\<close>

lemma second_entry_build_not_found:
  "fst (handleDeleteBuild goodEnv deletePassword ''a'' ''g''
     (updateAll goodEnv
       [(''P'', info ''a'' [], build ''f''), (''Q'', info ''a'' [], build ''g'')] (world0 []))) =
   \<lparr>status = 404, body = BuildNotFound\<rparr>"
  by (simp add: handleDeleteBuild_def updateMetadata_def saveMetadata_def upsert_def
      os_defs example_defs Let_def)

lemma second_entry_survives_deleteApp:
  "fst (handleDeleteApp goodEnv deletePassword ''a''
     (updateAll goodEnv
       [(''P'', info ''a'' [], build ''f''), (''Q'', info ''a'' [], build ''g'')] (world0 []))) =
     \<lparr>status = 200, body = AppDeleted\<rparr> \<and>
   allProjects (snd (handleDeleteApp goodEnv deletePassword ''a''
     (updateAll goodEnv
       [(''P'', info ''a'' [], build ''f''), (''Q'', info ''a'' [], build ''g'')] (world0 [])))) =
     [\<lparr>ProjectName = ''Q'', Apps = [\<lparr>AppName = ''New'', PackageName = ''a'', IconPath = [], Builds = [build ''g'']\<rparr>]\<rparr>]"
  by (simp add: handleDeleteApp_def updateMetadata_def saveMetadata_def upsert_def
      os_defs example_defs Let_def)

text \<open>
  What every sequence of uploads from the empty registry does keep: one project per
  project name and, within each project, one app entry per package name.
\<close>

lemma updateAll_from_empty_unique:
  "uniqueProjectNames (allProjects (updateAll E cs (w\<lparr>allProjects := []\<rparr>))) \<and>
   uniquePackagesInProject (allProjects (updateAll E cs (w\<lparr>allProjects := []\<rparr>)))"
  by (rule updateAll_invariants) (simp_all add: uniqueProjectNames_def uniquePackagesInProject_def)



text \<open>
  C5. The property as stated fails in its last part: \<open>handleDeleteBuild\<close> gives one and
  the same answer, 404 with the build-not-found body, for a file name unknown in an
  existing package and for a package with no app entry at all, so its report does not
  tell the two apart.
\<close>

theorem deleteBuild_same_report:
  "fst (handleDeleteBuild goodEnv deletePassword ''a'' ''g''
          (world1 [\<lparr>ProjectName = ''P'', Apps = [app ''a'' [] [''f'']]\<rparr>])) =
     \<lparr>status = 404, body = BuildNotFound\<rparr> \<and>
   fst (handleDeleteBuild goodEnv deletePassword ''a'' ''g'' (world1 [])) =
     \<lparr>status = 404, body = BuildNotFound\<rparr>"
  by (simp add: handleDeleteBuild_def os_defs example_defs Let_def)

text \<open>
  C5, amended. When the app entry of the package (the first one in registry order) holds
  no build of the given file name, \<open>handleDeleteBuild\<close>, called with the delete
  password, answers 404 with the build-not-found body and leaves the registry and the
  files as they were: the world returned is the one of the call with the lock taken and
  released. It gives the same answer, with the same world, when no app entry has the
  package.
\<close>

theorem deleteBuild_unknown_file:
  "(find (\<lambda>a. PackageName a = packageName) (concat (map Apps (allProjects w))) = Some a \<and>
    \<not> list_ex (\<lambda>b. FileName b = fileName) (Builds a) \<longrightarrow>
      handleDeleteBuild E deletePassword packageName fileName w =
        (\<lparr>status = 404, body = BuildNotFound\<rparr>, mutex_Unlock (mutex_Lock w)) \<and>
      allProjects (snd (handleDeleteBuild E deletePassword packageName fileName w)) = allProjects w \<and>
      files (snd (handleDeleteBuild E deletePassword packageName fileName w)) = files w) \<and>
   (find (\<lambda>a. PackageName a = packageName) (concat (map Apps (allProjects w))) = None \<longrightarrow>
      handleDeleteBuild E deletePassword packageName fileName w =
        (\<lparr>status = 404, body = BuildNotFound\<rparr>, mutex_Unlock (mutex_Lock w)))"
proof (intro conjI impI)
  assume n: "find (\<lambda>a. PackageName a = packageName) (concat (map Apps (allProjects w))) = None"
  then show "handleDeleteBuild E deletePassword packageName fileName w =
        (\<lparr>status = 404, body = BuildNotFound\<rparr>, mutex_Unlock (mutex_Lock w))"
    by (rule deleteBuild_unknown_package)
next
  assume h: "find (\<lambda>a. PackageName a = packageName) (concat (map Apps (allProjects w))) = Some a \<and>
    \<not> list_ex (\<lambda>b. FileName b = fileName) (Builds a)"
  then have fa: "find (\<lambda>a. PackageName a = packageName) (concat (map Apps (allProjects w))) = Some a"
    and nbf: "\<not> list_ex (\<lambda>b. FileName b = fileName) (Builds a)" by simp_all
  have r: "handleDeleteBuild E deletePassword packageName fileName w =
           (\<lparr>status = 404, body = BuildNotFound\<rparr>, mutex_Unlock (mutex_Lock w))"
  proof (cases "findApp packageName (allProjects w)")
    case None
    then show ?thesis using fa findApp_None [of packageName "allProjects w"] by simp
  next
    case (Some ij)
    obtain i j where ij: "ij = (i, j)" by (cases ij) auto
    note f = findApp_Some [OF Some [unfolded ij]]
    have a: "Apps (allProjects w ! i) ! j = a" using f fa by simp
    have nb: "filter (\<lambda>b. FileName b \<noteq> fileName) (Builds a) = Builds a"
      using nbf by (rule filter_no_match)
    have same: "(allProjects w)[i := (allProjects w ! i)\<lparr>Apps := (Apps (allProjects w ! i))[j := a]\<rparr>]
                  = allProjects w"
      unfolding a [symmetric] by simp
    show ?thesis
      using Some ij a nb nbf same
      by (simp add: handleDeleteBuild_def Let_def mutex_Lock_def mutex_Unlock_def record_event_def)
  qed
  show "handleDeleteBuild E deletePassword packageName fileName w =
        (\<lparr>status = 404, body = BuildNotFound\<rparr>, mutex_Unlock (mutex_Lock w))"
    by (rule r)
  show "allProjects (snd (handleDeleteBuild E deletePassword packageName fileName w)) = allProjects w"
    unfolding r by (simp add: mutex_Lock_def mutex_Unlock_def record_event_def)
  show "files (snd (handleDeleteBuild E deletePassword packageName fileName w)) = files w"
    unfolding r by (simp add: mutex_Lock_def mutex_Unlock_def record_event_def)
qed

theorem deleteBuild_unknown_file_witness:
  "fst (handleDeleteBuild goodEnv deletePassword ''a'' ''g''
          (world1 [\<lparr>ProjectName = ''P'', Apps = [app ''a'' [] [''f'']]\<rparr>])) =
     \<lparr>status = 404, body = BuildNotFound\<rparr> \<and>
   allProjects (snd (handleDeleteBuild goodEnv deletePassword ''a'' ''g''
          (world1 [\<lparr>ProjectName = ''P'', Apps = [app ''a'' [] [''f'']]\<rparr>]))) =
     [\<lparr>ProjectName = ''P'', Apps = [app ''a'' [] [''f'']]\<rparr>] \<and>
   fst (handleDeleteBuild goodEnv deletePassword ''b'' ''f''
          (world1 [\<lparr>ProjectName = ''P'', Apps = [app ''a'' [] [''f'']]\<rparr>])) =
     \<lparr>status = 404, body = BuildNotFound\<rparr>"
proof -
  let ?w = "world1 [\<lparr>ProjectName = ''P'', Apps = [app ''a'' [] [''f'']]\<rparr>]"
  have h1: "find (\<lambda>a. PackageName a = ''a'') (concat (map Apps (allProjects ?w)))
     = Some (app ''a'' [] [''f''])"
    by (simp add: example_defs)
  have h2: "\<not> list_ex (\<lambda>b. FileName b = ''g'') (Builds (app ''a'' [] [''f'']))"
    by (simp add: example_defs)
  have h3: "find (\<lambda>a. PackageName a = ''b'') (concat (map Apps (allProjects ?w))) = None"
    by (simp add: example_defs)
  show ?thesis
    using h1 h2 h3
      deleteBuild_unknown_file [of "''a''" ?w "app ''a'' [] [''f'']" "''g''" goodEnv]
      deleteBuild_unknown_file [of "''b''" ?w "app ''a'' [] [''f'']" "''f''" goodEnv]
    by (simp add: world1_def mutex_Lock_def mutex_Unlock_def record_event_def)
qed

text \<open>
  C2. On a registry whose only project holds one app with one build, deleting that build
  succeeds and removes the app entry, but the project stays in the registry with an
  empty app list: \<open>handleDeleteBuild\<close> has no counterpart of lines 773-782 of
  \<open>handleDeleteApp\<close>, and by \<open>deleteBuild_keeps_projects\<close> it never removes a project.
\<close>

theorem deleteBuild_leaves_empty_project:
  "fst (handleDeleteBuild goodEnv deletePassword ''com.example.app'' ''app-1.1-beta-200.apk''
          (world0 [\<lparr>ProjectName = ''Demo'',
                    Apps = [app ''com.example.app'' [] [''app-1.1-beta-200.apk'']]\<rparr>])) =
     \<lparr>status = 200, body = BuildDeleted\<rparr> \<and>
   allProjects (snd (handleDeleteBuild goodEnv deletePassword ''com.example.app''
          ''app-1.1-beta-200.apk''
          (world0 [\<lparr>ProjectName = ''Demo'',
                    Apps = [app ''com.example.app'' [] [''app-1.1-beta-200.apk'']]\<rparr>]))) =
     [\<lparr>ProjectName = ''Demo'', Apps = []\<rparr>]"
  by (simp add: handleDeleteBuild_def saveMetadata_def os_defs example_defs Let_def)

text \<open>
  C10. The property as stated fails on a registry with two projects of one name: when
  the first one loses its last app, lines 773-782 drop every project of that name, and
  the later project goes with it, though it holds no app of the package.
\<close>

theorem deleteApp_drops_same_name_project:
  "allProjects (snd (handleDeleteApp goodEnv deletePassword ''a''
      (world0 [\<lparr>ProjectName = ''P'', Apps = [app ''a'' [] [''f'']]\<rparr>,
               \<lparr>ProjectName = ''P'', Apps = [app ''b'' [] [''g'']]\<rparr>]))) = []"
  by (simp add: handleDeleteApp_def saveMetadata_def os_defs example_defs Let_def)

text \<open>
  C10, amended. \<open>handleDeleteApp\<close> takes the first project, in registry order, that
  holds an app entry of the package, and drops the entries of the package from that
  project only: no other project's app list is rewritten, also when it holds an entry of
  the package. When the first project keeps an app, the registry is the old one with
  that project's app list filtered. When it keeps none, the projects of its name are
  dropped and every other project stays as it was. In a registry with one project per
  name, that is: every other project, and so every later one, is left unchanged.
\<close>

theorem deleteApp_first_project_only:
  assumes "allProjects w = pre @ p # post"
      and "\<not> list_ex (\<lambda>q. list_ex (\<lambda>a. PackageName a = packageName) (Apps q)) pre"
      and "list_ex (\<lambda>a. PackageName a = packageName) (Apps p)"
  shows "allProjects (snd (handleDeleteApp E deletePassword packageName w)) =
     (if filter (\<lambda>a. PackageName a \<noteq> packageName) (Apps p) = []
      then filter (\<lambda>q. ProjectName q \<noteq> ProjectName p) (pre @ post)
      else pre @ p\<lparr>Apps := filter (\<lambda>a. PackageName a \<noteq> packageName) (Apps p)\<rparr> # post) \<and>
     (uniqueProjectNames (allProjects w) \<longrightarrow>
      allProjects (snd (handleDeleteApp E deletePassword packageName w)) =
       (if filter (\<lambda>a. PackageName a \<noteq> packageName) (Apps p) = []
        then pre @ post
        else pre @ p\<lparr>Apps := filter (\<lambda>a. PackageName a \<noteq> packageName) (Apps p)\<rparr> # post))"
proof -
  have i: "findIndex (\<lambda>p. list_ex (\<lambda>a. PackageName a = packageName) (Apps p)) (allProjects w)
             = Some (length pre)"
    unfolding assms(1) using assms(2,3) by (rule findIndex_split)
  have g: "allProjects (snd (handleDeleteApp E deletePassword packageName w)) =
     (if filter (\<lambda>a. PackageName a \<noteq> packageName) (Apps p) = []
      then filter (\<lambda>q. ProjectName q \<noteq> ProjectName p) (pre @ post)
      else pre @ p\<lparr>Apps := filter (\<lambda>a. PackageName a \<noteq> packageName) (Apps p)\<rparr> # post)"
    unfolding allProjects_handleDeleteApp [OF i] assms(1) by simp
  have u: "filter (\<lambda>q. ProjectName q \<noteq> ProjectName p) (pre @ post) = pre @ post"
    if "uniqueProjectNames (allProjects w)"
  proof -
    have "filter (\<lambda>q. ProjectName q \<noteq> ProjectName p) pre = pre"
         "filter (\<lambda>q. ProjectName q \<noteq> ProjectName p) post = post"
      using that unfolding assms(1) uniqueProjectNames_def filter_id_conv
      by (auto simp: image_iff)
    then show ?thesis by simp
  qed
  show ?thesis using g u by simp
qed

theorem deleteApp_first_project_only_witness:
  "allProjects (snd (handleDeleteApp goodEnv deletePassword ''a''
      (world0 ([\<lparr>ProjectName = ''N'', Apps = [app ''c'' [] [''h'']]\<rparr>] @
               \<lparr>ProjectName = ''P'', Apps = [app ''a'' [] [''f''], app ''b'' [] [''g'']]\<rparr> #
               [\<lparr>ProjectName = ''Q'', Apps = [app ''a'' [] [''k'']]\<rparr>])))) =
     [\<lparr>ProjectName = ''N'', Apps = [app ''c'' [] [''h'']]\<rparr>,
      \<lparr>ProjectName = ''P'', Apps = [app ''b'' [] [''g'']]\<rparr>,
      \<lparr>ProjectName = ''Q'', Apps = [app ''a'' [] [''k'']]\<rparr>] \<and>
   allProjects (snd (handleDeleteApp goodEnv deletePassword ''a''
      (world0 ([\<lparr>ProjectName = ''N'', Apps = [app ''c'' [] [''h'']]\<rparr>] @
               \<lparr>ProjectName = ''P'', Apps = [app ''a'' [] [''f'']]\<rparr> #
               [\<lparr>ProjectName = ''Q'', Apps = [app ''a'' [] [''k'']]\<rparr>])))) =
     [\<lparr>ProjectName = ''N'', Apps = [app ''c'' [] [''h'']]\<rparr>,
      \<lparr>ProjectName = ''Q'', Apps = [app ''a'' [] [''k'']]\<rparr>] \<and>
   uniqueProjectNames (allProjects
      (world0 ([\<lparr>ProjectName = ''N'', Apps = [app ''c'' [] [''h'']]\<rparr>] @
               \<lparr>ProjectName = ''P'', Apps = [app ''a'' [] [''f'']]\<rparr> #
               [\<lparr>ProjectName = ''Q'', Apps = [app ''a'' [] [''k'']]\<rparr>])))"
proof -
  let ?pre = "[\<lparr>ProjectName = ''N'', Apps = [app ''c'' [] [''h'']]\<rparr>]"
  let ?post = "[\<lparr>ProjectName = ''Q'', Apps = [app ''a'' [] [''k'']]\<rparr>]"
  let ?p1 = "\<lparr>ProjectName = ''P'', Apps = [app ''a'' [] [''f''], app ''b'' [] [''g'']]\<rparr>"
  let ?p2 = "\<lparr>ProjectName = ''P'', Apps = [app ''a'' [] [''f'']]\<rparr>"
  have a1: "allProjects (world0 (?pre @ ?p1 # ?post)) = ?pre @ ?p1 # ?post"
    by (simp add: world0_def)
  have a2: "allProjects (world0 (?pre @ ?p2 # ?post)) = ?pre @ ?p2 # ?post"
    by (simp add: world0_def)
  have n: "\<not> list_ex (\<lambda>q. list_ex (\<lambda>a. PackageName a = ''a'') (Apps q)) ?pre"
    by (simp add: app_def)
  have m1: "list_ex (\<lambda>a. PackageName a = ''a'') (Apps ?p1)" by (simp add: app_def)
  have m2: "list_ex (\<lambda>a. PackageName a = ''a'') (Apps ?p2)" by (simp add: app_def)
  have u: "uniqueProjectNames (allProjects (world0 (?pre @ ?p2 # ?post)))"
    by (simp add: uniqueProjectNames_def world0_def)
  show ?thesis
    using deleteApp_first_project_only [OF a1 n m1, of goodEnv]
          deleteApp_first_project_only [OF a2 n m2, of goodEnv] u
    by (simp add: app_def)
qed

end
